theory Spec2Isabelle
  imports Main "HOL-Library.Sublist"
begin

section \<open>JavaScript strings\<close>

text \<open>
  Strings are character lists. Host names and paths returned by the platform's URL
  parser are ASCII, so one \<^typ>\<open>char\<close> stands for one code unit.
\<close>

text \<open>\<^verbatim>\<open>s.includes(t)\<close>: \<open>t\<close> occurs in \<open>s\<close> as a contiguous run.\<close>

definition str_includes :: "string \<Rightarrow> string \<Rightarrow> bool" where
  "str_includes s t = list_ex (prefix t) (suffixes s)"

text \<open>\<^verbatim>\<open>s.endsWith(t)\<close>.\<close>

definition endsWith :: "string \<Rightarrow> string \<Rightarrow> bool" where
  "endsWith s t = suffix t s"

text \<open>\<^verbatim>\<open>s.toLowerCase()\<close> on ASCII letters; every other character is kept.\<close>

definition lower_char :: "char \<Rightarrow> char" where
  "lower_char c =
     (case map_of (zip ''ABCDEFGHIJKLMNOPQRSTUVWXYZ'' ''abcdefghijklmnopqrstuvwxyz'') c of
        Some l \<Rightarrow> l
      | None \<Rightarrow> c)"

definition toLowerCase :: "string \<Rightarrow> string" where
  "toLowerCase s = map lower_char s"

text \<open>
  \<^verbatim>\<open>s.split(c)\<close> for a one-character separator. The result is never empty:
  the empty string splits into one empty piece.
\<close>

fun split :: "char \<Rightarrow> string \<Rightarrow> string list" where
  "split c [] = [[]]"
| "split c (x # xs) =
     (if x = c then [] # split c xs
      else (case split c xs of
              [] \<Rightarrow> [[x]]
            | p # ps \<Rightarrow> (x # p) # ps))"

text \<open>\<^verbatim>\<open>xs.join(sep)\<close>.\<close>

fun join :: "string \<Rightarrow> string list \<Rightarrow> string" where
  "join sep [] = []"
| "join sep [x] = x"
| "join sep (x # y # ys) = x @ sep @ join sep (y # ys)"

text \<open>Decimal text of a non-negative integer, as a template literal prints it.\<close>

fun string_of_nat :: "nat \<Rightarrow> string" where
  "string_of_nat n =
     (if n < 10 then [''0123456789'' ! n]
      else string_of_nat (n div 10) @ [''0123456789'' ! (n mod 10)])"

declare string_of_nat.simps [simp del]

section \<open>Regular expressions of the signal catalog\<close>

text \<open>
  Every regular expression literal of the source is a sequence of atoms, optionally
  anchored at the start (\<^verbatim>\<open>^\<close>) and at the end (\<^verbatim>\<open>$\<close>). An atom is one literal
  character, or a character class repeated between \<open>lo\<close> and \<open>hi\<close> times
  (\<^verbatim>\<open>\d{1,3}\<close>, \<^verbatim>\<open>\d{5,}\<close>, \<^verbatim>\<open>[a-zA-Z0-9]{25,}\<close>; no upper bound is \<open>None\<close>).
  No literal carries a flag, so \<^verbatim>\<open>test\<close> keeps no state between calls.
\<close>

datatype atom = Ch char | Rep "char list" nat "nat option"

record regex =
  anchored_start :: bool
  atoms :: "atom list"
  anchored_end :: bool
  source :: string

definition digit_class :: "char list" where
  "digit_class = ''0123456789''"

definition alnum_class :: "char list" where
  "alnum_class =
     ''abcdefghijklmnopqrstuvwxyz'' @ ''ABCDEFGHIJKLMNOPQRSTUVWXYZ'' @ ''0123456789''"

text \<open>
  Backtracking match of the atoms at the front of \<open>s\<close>; with \<open>at_end\<close> the match
  has to use up \<open>s\<close>.
\<close>

fun match_here :: "atom list \<Rightarrow> bool \<Rightarrow> string \<Rightarrow> bool" where
  "match_here [] at_end s = (if at_end then s = [] else True)"
| "match_here (Ch c # as) at_end s =
     (case s of
        [] \<Rightarrow> False
      | x # xs \<Rightarrow> x = c \<and> match_here as at_end xs)"
| "match_here (Rep cls lo hi # as) at_end s =
     list_ex (\<lambda>k. match_here as at_end (drop k s))
       (filter (\<lambda>k. case hi of None \<Rightarrow> True | Some h \<Rightarrow> k \<le> h)
          [lo ..< Suc (length (takeWhile (\<lambda>c. c \<in> set cls) s))])"

text \<open>\<^verbatim>\<open>pattern.test(s)\<close>: a match starting anywhere, or at position 0 when anchored.\<close>

definition test :: "regex \<Rightarrow> string \<Rightarrow> bool" where
  "test r s =
     (if anchored_start r then match_here (atoms r) (anchored_end r) s
      else list_ex (match_here (atoms r) (anchored_end r)) (suffixes s))"

text \<open>A literal word such as \<^verbatim>\<open>/secure/\<close>.\<close>

definition word :: "string \<Rightarrow> regex" where
  "word w = \<lparr>anchored_start = False, atoms = map Ch w, anchored_end = False, source = w\<rparr>"

text \<open>\<^verbatim>\<open>/^\d{1,3}\.\d{1,3}\.\d{1,3}\.\d{1,3}$/\<close>\<close>

definition IP_PATTERN :: regex where
  "IP_PATTERN =
     \<lparr>anchored_start = True,
      atoms = [Rep digit_class 1 (Some 3), Ch CHR ''.'', Rep digit_class 1 (Some 3), Ch CHR ''.'',
               Rep digit_class 1 (Some 3), Ch CHR ''.'', Rep digit_class 1 (Some 3)],
      anchored_end = True,
      source = concat (replicate 3 ([CHR 0x5C] @ ''d{1,3}'' @ [CHR 0x5C] @ ''.''))
               @ [CHR 0x5C] @ ''d{1,3}''\<rparr>"

text \<open>\<^verbatim>\<open>/-/g\<close>, used with \<^verbatim>\<open>match\<close>: the list of all matches, one per hyphen.\<close>

definition match_hyphens :: "string \<Rightarrow> string list" where
  "match_hyphens s = map (\<lambda>c. [c]) (filter (\<lambda>c. c = CHR ''-'') s)"

section \<open>Signal catalog\<close>

datatype risk_level = SAFE | LOW | MEDIUM | HIGH

definition RISK_THRESHOLDS_LOW :: int where "RISK_THRESHOLDS_LOW = 30"
definition RISK_THRESHOLDS_MEDIUM :: int where "RISK_THRESHOLDS_MEDIUM = 60"
definition RISK_THRESHOLDS_HIGH :: int where "RISK_THRESHOLDS_HIGH = 80"

definition SUSPICIOUS_TLDS :: "string list" where
  "SUSPICIOUS_TLDS =
     [''xyz'', ''top'', ''tk'', ''ml'', ''ga'', ''cf'', ''gq'', ''info'', ''online'', ''site'',
      ''club'', ''xin'']"

definition SUSPICIOUS_PATTERNS :: "regex list" where
  "SUSPICIOUS_PATTERNS =
     [word ''secure'', word ''login'', word ''signin'', word ''verify'', word ''account'',
      word ''update'', word ''confirm'', word ''banking'',
      word ''paypal'', word ''apple'', word ''microsoft'', word ''google'', word ''facebook'',
      word ''amazon'', word ''netflix'',
      \<lparr>anchored_start = False, atoms = [Rep digit_class 5 None], anchored_end = False,
       source = [CHR 0x5C] @ ''d{5,}''\<rparr>,
      \<lparr>anchored_start = True, atoms = [Rep alnum_class 25 None], anchored_end = True,
       source = ''^[a-zA-Z0-9]{25,}$''\<rparr>]"

definition SECURITY_TERMS :: "string list" where
  "SECURITY_TERMS =
     [''secure'', ''security'', ''authenticate'', ''verification'', ''confirm'', ''validate'',
      ''wallet'']"

section \<open>URL structural analyzer\<close>

text \<open>
  \<^verbatim>\<open>new URL(url)\<close> is the platform's parser. It is a parameter of the model: it
  returns the parsed object, or \<open>None\<close> where the constructor throws.
\<close>

record url_obj =
  hostname :: string
  pathname :: string

type_synonym url_parser = "string \<Rightarrow> url_obj option"

record analysis =
  score :: int
  issues :: "string list"
  riskLevel :: risk_level

text \<open>One indicator: when it fires, its weight is added and its issue is pushed.\<close>

definition indicator :: "bool \<Rightarrow> int \<Rightarrow> string \<Rightarrow> int \<times> string list \<Rightarrow> int \<times> string list" where
  "indicator fires weight issue st =
     (if fires then (fst st + weight, snd st @ [issue]) else st)"

text \<open>The statements of the \<^verbatim>\<open>try\<close> block after the URL has been parsed.\<close>

definition try_block :: "url_obj \<Rightarrow> string \<Rightarrow> int \<times> string list \<Rightarrow> int \<times> string list" where
  "try_block urlObj url st0 =
     (let domain = hostname urlObj;
          path = pathname urlObj;
          st1 = indicator (test IP_PATTERN domain) 40 ''IP address used as hostname'' st0;
          tld = toLowerCase (last (split CHR ''.'' domain));
          st2 = indicator (tld \<in> set SUSPICIOUS_TLDS) 15 (''Suspicious TLD: .'' @ tld) st1;
          st3 = indicator (int (length domain) > 30) 15 ''Unusually long domain name'' st2;
          subdomainCount = int (length (split CHR ''.'' domain)) - 2;
          st4 = indicator (subdomainCount > 3) 15 ''Excessive number of subdomains'' st3;
          st5 = indicator (length (match_hyphens domain) > 1) 10 ''Multiple hyphens in domain'' st4;
          st6 = fold (\<lambda>pattern. indicator (test pattern domain \<or> test pattern path) 10
                        (''Suspicious pattern detected: /'' @ source pattern @ ''/''))
                  SUSPICIOUS_PATTERNS st5;
          st7 = fold (\<lambda>term. indicator (str_includes domain term) 5
                        (''Security term in domain: '' @ [CHR 0x22] @ term @ [CHR 0x22]))
                  SECURITY_TERMS st6
      in indicator (str_includes url ''%'') 10 ''URL contains encoded characters'' st7)"

text \<open>
  \<^verbatim>\<open>analyzeUrl\<close>. Only the constructor call can throw inside the \<^verbatim>\<open>try\<close> block,
  and it is the first statement, so the \<^verbatim>\<open>catch\<close> clause starts from score 0 and
  no issues.
\<close>

definition analyzeUrl :: "url_parser \<Rightarrow> string \<Rightarrow> analysis" where
  "analyzeUrl URL url =
     (let st = (case URL url of
                  Some urlObj \<Rightarrow> try_block urlObj url (0, [])
                | None \<Rightarrow> (0 + 20, [] @ [''Malformed URL'']));
          sc = fst st
      in \<lparr>score = sc,
          issues = snd st,
          riskLevel =
            (if sc \<ge> RISK_THRESHOLDS_HIGH then HIGH
             else if sc \<ge> RISK_THRESHOLDS_MEDIUM then MEDIUM
             else if sc \<ge> RISK_THRESHOLDS_LOW then LOW
             else SAFE)\<rparr>)"

section \<open>Familiarity evaluator\<close>

record history_item =
  item_url :: string
  lastVisitTime :: int

record history_query =
  query_text :: string
  startTime :: int
  endTime :: int
  maxResults :: nat

text \<open>
  \<^verbatim>\<open>chrome.history.search\<close> is the platform's history lookup, a parameter of the
  model; \<open>None\<close> is a rejected promise.
\<close>

type_synonym history_search = "history_query \<Rightarrow> history_item list option"

text \<open>
  The objects \<^verbatim>\<open>checkBrowserHistory\<close> returns. \<open>LookupFailed\<close> is the object of
  the \<^verbatim>\<open>catch\<close> clause, \<^verbatim>\<open>{familiar: false, firstVisit: true, visitCount: 0, error: true}\<close>,
  which has neither \<^verbatim>\<open>daysSinceLastVisit\<close> nor \<^verbatim>\<open>familiarityScore\<close>.
\<close>

record snapshot =
  familiar :: bool
  firstVisit :: bool
  visitCount :: nat
  daysSinceLastVisit :: int
  familiarityScore :: int

datatype familiarity = Snapshot snapshot | LookupFailed

text \<open>The "same domain" test of the history filter.\<close>

definition same_domain :: "string \<Rightarrow> string \<Rightarrow> bool" where
  "same_domain itemDomain domain =
     (itemDomain = domain \<or>
      endsWith itemDomain (''.'' @ domain) \<or>
      endsWith domain (''.'' @ itemDomain))"

definition isMatch :: "url_parser \<Rightarrow> string \<Rightarrow> history_item \<Rightarrow> bool" where
  "isMatch URL domain item =
     (case URL (item_url item) of
        Some itemObj \<Rightarrow> same_domain (hostname itemObj) domain
      | None \<Rightarrow> False)"

text \<open>\<^verbatim>\<open>Math.max(...visits)\<close> on a non-empty list.\<close>

definition Math_max :: "int list \<Rightarrow> int" where
  "Math_max visits = fold max (tl visits) (hd visits)"

definition MS_PER_DAY :: int where
  "MS_PER_DAY = 24 * 60 * 60 * 1000"

text \<open>
  \<^verbatim>\<open>checkBrowserHistory\<close>, with the clock reading \<^verbatim>\<open>Date.now()\<close> as the parameter
  \<open>now\<close> (the readings of one call are taken at one instant). Times are whole
  milliseconds. The constant that the source calls \<^verbatim>\<open>visitCount\<close> inside the function,
  the match count capped at 20, is \<open>cappedCount\<close> here; the \<^verbatim>\<open>visitCount\<close> of the
  returned object is the uncapped count.
\<close>

definition checkBrowserHistory :: "url_parser \<Rightarrow> history_search \<Rightarrow> int \<Rightarrow> string \<Rightarrow> familiarity" where
  "checkBrowserHistory URL search now url =
     (case URL url of
        None \<Rightarrow> LookupFailed
      | Some urlObj \<Rightarrow>
          (let domain = hostname urlObj;
               historyQuery = \<lparr>query_text = domain, startTime = now - 90 * MS_PER_DAY,
                               endTime = now - 5000, maxResults = 1000\<rparr>
           in case search historyQuery of
                None \<Rightarrow> LookupFailed
              | Some historyItems \<Rightarrow>
                  (let exactDomainMatches = filter (isMatch URL domain) historyItems
                   in if length exactDomainMatches = 0 then
                        Snapshot \<lparr>familiar = False, firstVisit = True, visitCount = 0,
                                  daysSinceLastVisit = 0, familiarityScore = 0\<rparr>
                      else
                        (let visits = map lastVisitTime exactDomainMatches;
                             mostRecentVisit = Math_max visits;
                             days = (now - mostRecentVisit) div MS_PER_DAY;
                             cappedCount = min (int (length exactDomainMatches)) 20;
                             recencyScore = (if days = 0 then 60 else max (60 - days * 2) 0)
                         in Snapshot \<lparr>familiar = True, firstVisit = False,
                                      visitCount = length exactDomainMatches,
                                      daysSinceLastVisit = days,
                                      familiarityScore = 0 + cappedCount * 2 + recencyScore\<rparr>))))"

section \<open>Risk aggregator\<close>

record assessment = analysis +
  familiarity :: familiarity

text \<open>
  The score adjustment of \<^verbatim>\<open>analyzeUrlWithHistory\<close>: the adjusted score and the issue
  list after the push. \<^verbatim>\<open>firstVisit\<close> is true in the \<open>LookupFailed\<close> object.
\<close>

fun adjust :: "analysis \<Rightarrow> familiarity \<Rightarrow> int \<times> string list" where
  "adjust baseAnalysis LookupFailed =
     (score baseAnalysis + 90, issues baseAnalysis @ [''First visit to this domain''])"
| "adjust baseAnalysis (Snapshot f) =
     (if firstVisit f then
        (score baseAnalysis + 90, issues baseAnalysis @ [''First visit to this domain''])
      else
        (let reduction = familiarityScore f div 4;
             adjustedScore = max (score baseAnalysis - reduction) 0
         in (adjustedScore,
             if familiarityScore f > 70 then
               issues baseAnalysis @
                 [''Frequently visited site ('' @ string_of_nat (visitCount f) @ '' visits)'']
             else issues baseAnalysis)))"

text \<open>
  The part of \<^verbatim>\<open>analyzeUrlWithHistory\<close> after both inputs are there: adjustment,
  risk level of the adjusted score, and the result object.
\<close>

definition aggregateRisk :: "analysis \<Rightarrow> familiarity \<Rightarrow> assessment" where
  "aggregateRisk baseAnalysis fam =
     (let st = adjust baseAnalysis fam;
          adjustedScore = fst st
      in \<lparr>score = adjustedScore,
          issues = snd st,
          riskLevel =
            (if adjustedScore \<ge> RISK_THRESHOLDS_HIGH then HIGH
             else if adjustedScore \<ge> RISK_THRESHOLDS_MEDIUM then MEDIUM
             else if adjustedScore \<ge> RISK_THRESHOLDS_LOW then LOW
             else SAFE),
          familiarity = fam\<rparr>)"

definition analyzeUrlWithHistory :: "url_parser \<Rightarrow> history_search \<Rightarrow> int \<Rightarrow> string \<Rightarrow> assessment" where
  "analyzeUrlWithHistory URL search now url =
     (let baseAnalysis = analyzeUrl URL url;
          fam = checkBrowserHistory URL search now url
      in aggregateRisk baseAnalysis fam)"

section \<open>Content feature analyzer\<close>

text \<open>
  \<^verbatim>\<open>s.replace(c, r)\<close> with a one-character string as the pattern: only the first
  occurrence is replaced.
\<close>

fun replace :: "string \<Rightarrow> char \<Rightarrow> string \<Rightarrow> string" where
  "replace [] c r = []"
| "replace (x # xs) c r = (if x = c then r @ xs else x # replace xs c r)"

record image =
  alt :: string
  src :: string

record content_results =
  suspiciousText :: bool
  brandImpersonation :: bool
  poorSpellingGrammar :: bool
  urgencyLanguage :: bool
  content_issues :: "string list"

definition urgencyPhrases :: "string list" where
  "urgencyPhrases =
     [''act now'', ''urgent'', ''immediately'', ''alert'', ''attention'', ''important'',
      ''limited time'', ''expire'', ''suspended'', ''verify now'', ''verify your account'',
      ''unusual activity'', ''suspicious activity'', ''security alert'']"

definition commonBrands :: "string list" where
  "commonBrands =
     [''paypal'', ''apple'', ''microsoft'', ''google'', ''facebook'', ''amazon'',
      ''bank of america'', ''chase'', ''wells fargo'', ''citi'', ''netflix'']"

text \<open>The loop over the images: the brands found so far, with every new hit pushed.\<close>

definition collect_brands :: "image list \<Rightarrow> string list" where
  "collect_brands images =
     fold (\<lambda>img found.
             (let altText = toLowerCase (alt img);
                  srcText = toLowerCase (src img)
              in fold (\<lambda>brand acc.
                         if str_includes altText brand \<or> str_includes srcText brand
                         then acc @ [brand] else acc)
                   commonBrands found))
       images []"

text \<open>
  \<^verbatim>\<open>analyzePageContent\<close>. The page is given by the text of its body
  (\<^verbatim>\<open>document.body.innerText\<close>), its images and the host name of its location.
\<close>

definition analyzePageContent :: "string \<Rightarrow> image list \<Rightarrow> string \<Rightarrow> content_results" where
  "analyzePageContent innerText images location_hostname =
     (let results0 = \<lparr>suspiciousText = False, brandImpersonation = False,
                      poorSpellingGrammar = False, urgencyLanguage = False,
                      content_issues = []\<rparr>;
          pageText = toLowerCase innerText;
          results1 = fold (\<lambda>phrase results.
                             if str_includes pageText phrase
                             then results\<lparr>urgencyLanguage := True,
                                    content_issues := content_issues results @
                                      [''Urgency language: '' @ [CHR 0x22] @ phrase @ [CHR 0x22]]\<rparr>
                             else results)
                       urgencyPhrases results0;
          brandLogosFound = collect_brands images
      in if length brandLogosFound > 0 then
           (let domain = toLowerCase location_hostname;
                brandInDomain = fold (\<lambda>brand found.
                                        if str_includes domain (replace brand CHR '' '' [])
                                        then True else found)
                                  brandLogosFound False
            in if \<not> brandInDomain then
                 results1\<lparr>brandImpersonation := True,
                          content_issues := content_issues results1 @
                            [''Potential impersonation of: '' @ join '', '' brandLogosFound]\<rparr>
               else results1)
         else results1)"

section \<open>Aggregation on a store\<close>

text \<open>
  In the source the issue list is an array object: \<^verbatim>\<open>analyzeUrl\<close> creates it and
  returns an object that refers to it, and \<^verbatim>\<open>analyzeUrlWithHistory\<close> pushes onto
  that array and copies the reference into its result by the spread
  \<^verbatim>\<open>{...baseAnalysis, score, riskLevel, familiarity}\<close>. The store makes the references
  explicit: a cell is an array of issues, or an analysis object with its score, the
  reference to its issue array, its risk level and, in a result of
  \<^verbatim>\<open>analyzeUrlWithHistory\<close>, the familiarity object.
\<close>

type_synonym ref = nat

datatype cell = Array "string list" | Object int ref risk_level "familiarity option"

type_synonym store = "cell list"

definition alloc :: "store \<Rightarrow> cell \<Rightarrow> ref \<times> store" where
  "alloc h c = (length h, h @ [c])"

definition lookup :: "store \<Rightarrow> ref \<Rightarrow> cell option" where
  "lookup h r = (if r < length h then Some (h ! r) else None)"

text \<open>\<^verbatim>\<open>array.push(x)\<close> on the array at \<open>r\<close>.\<close>

definition push :: "store \<Rightarrow> ref \<Rightarrow> string \<Rightarrow> store option" where
  "push h r x =
     (case lookup h r of
        Some (Array xs) \<Rightarrow> Some (h[r := Array (xs @ [x])])
      | _ \<Rightarrow> None)"

text \<open>The analysis a reference stands for: the object's fields with the array's contents.\<close>

definition read_analysis :: "store \<Rightarrow> ref \<Rightarrow> analysis option" where
  "read_analysis h r =
     (case lookup h r of
        Some (Object sc ri lvl fam) \<Rightarrow>
          (case lookup h ri of
             Some (Array xs) \<Rightarrow> Some \<lparr>score = sc, issues = xs, riskLevel = lvl\<rparr>
           | _ \<Rightarrow> None)
      | _ \<Rightarrow> None)"

definition issues_ref :: "store \<Rightarrow> ref \<Rightarrow> ref option" where
  "issues_ref h r =
     (case lookup h r of
        Some (Object sc ri lvl fam) \<Rightarrow> Some ri
      | _ \<Rightarrow> None)"

text \<open>
  \<^verbatim>\<open>analyzeUrl\<close> on the store: a new array with the issues pushed during the
  analysis, and a new object \<^verbatim>\<open>{score, issues, riskLevel}\<close> referring to it.
\<close>

definition analyzeUrl_store :: "url_parser \<Rightarrow> string \<Rightarrow> store \<Rightarrow> ref \<times> store" where
  "analyzeUrl_store URL url h =
     (let a = analyzeUrl URL url;
          (ri, h1) = alloc h (Array (issues a))
      in alloc h1 (Object (score a) ri (riskLevel a) None))"

text \<open>The score adjustment with its push onto the base object's array.\<close>

fun adjust_store :: "int \<Rightarrow> ref \<Rightarrow> familiarity \<Rightarrow> store \<Rightarrow> (int \<times> store) option" where
  "adjust_store sc ri LookupFailed h =
     map_option (Pair (sc + 90)) (push h ri ''First visit to this domain'')"
| "adjust_store sc ri (Snapshot f) h =
     (if firstVisit f then
        map_option (Pair (sc + 90)) (push h ri ''First visit to this domain'')
      else
        (let reduction = familiarityScore f div 4;
             adjustedScore = max (sc - reduction) 0
         in if familiarityScore f > 70 then
              map_option (Pair adjustedScore)
                (push h ri (''Frequently visited site ('' @ string_of_nat (visitCount f) @ '' visits)''))
            else Some (adjustedScore, h)))"

text \<open>
  The aggregation of \<^verbatim>\<open>analyzeUrlWithHistory\<close> on the store, from the reference to
  the base analysis: the result is a new object whose \<^verbatim>\<open>issues\<close> field is the base
  object's. \<open>None\<close> stands for a reference that is not an analysis object.
\<close>

definition aggregateRisk_store :: "ref \<Rightarrow> familiarity \<Rightarrow> store \<Rightarrow> (ref \<times> store) option" where
  "aggregateRisk_store base fam h =
     (case lookup h base of
        Some (Object sc ri lvl none) \<Rightarrow>
          (case adjust_store sc ri fam h of
             Some (adjustedScore, h1) \<Rightarrow>
               Some (alloc h1
                 (Object adjustedScore ri
                    (if adjustedScore \<ge> RISK_THRESHOLDS_HIGH then HIGH
                     else if adjustedScore \<ge> RISK_THRESHOLDS_MEDIUM then MEDIUM
                     else if adjustedScore \<ge> RISK_THRESHOLDS_LOW then LOW
                     else SAFE)
                    (Some fam)))
           | None \<Rightarrow> None)
      | _ \<Rightarrow> None)"

section \<open>The specification's notions\<close>

text \<open>
  The risk-level mapping in the words of the specification: score at least 80 is HIGH,
  else at least 60 is MEDIUM, else at least 30 is LOW, else SAFE.
\<close>

definition risk_level_of :: "int \<Rightarrow> risk_level" where
  "risk_level_of s =
     (if s \<ge> 80 then HIGH else if s \<ge> 60 then MEDIUM else if s \<ge> 30 then LOW else SAFE)"

text \<open>The order of the levels, from SAFE up to HIGH.\<close>

fun level_rank :: "risk_level \<Rightarrow> nat" where
  "level_rank SAFE = 0"
| "level_rank LOW = 1"
| "level_rank MEDIUM = 2"
| "level_rank HIGH = 3"

text \<open>The \<^verbatim>\<open>firstVisit\<close> property of a familiarity object.\<close>

fun fam_firstVisit :: "familiarity \<Rightarrow> bool" where
  "fam_firstVisit LookupFailed = True"
| "fam_firstVisit (Snapshot f) = firstVisit f"

text \<open>One to three decimal digits.\<close>

definition digit_group :: "string \<Rightarrow> bool" where
  "digit_group g = (1 \<le> length g \<and> length g \<le> 3 \<and> list_all (\<lambda>c. c \<in> set digit_class) g)"

text \<open>
  A table of parsed URLs for the worked examples: on these strings the platform's parser
  returns these host names and paths, and it rejects \<^verbatim>\<open>not a url\<close>.
\<close>

definition example_URL :: url_parser where
  "example_URL =
     map_of
       [(''http://192.168.1.1/login'',
           \<lparr>hostname = ''192.168.1.1'', pathname = ''/login''\<rparr>),
        (''https://paypal-secure-login.xyz/'',
           \<lparr>hostname = ''paypal-secure-login.xyz'', pathname = ''/''\<rparr>),
        (''https://example.com/'',
           \<lparr>hostname = ''example.com'', pathname = ''/''\<rparr>),
        (''https://a.example.com/news'',
           \<lparr>hostname = ''a.example.com'', pathname = ''/news''\<rparr>),
        (''https://notexample.com/'',
           \<lparr>hostname = ''notexample.com'', pathname = ''/''\<rparr>),
        (''foo://999.999.999.999/'',
           \<lparr>hostname = ''999.999.999.999'', pathname = ''/''\<rparr>)]"

section \<open>Properties\<close>

subsection \<open>Risk levels\<close>

lemmas thresholds = RISK_THRESHOLDS_LOW_def RISK_THRESHOLDS_MEDIUM_def RISK_THRESHOLDS_HIGH_def

lemma analyzeUrl_level: "riskLevel (analyzeUrl URL url) = risk_level_of (score (analyzeUrl URL url))"
  by (simp add: analyzeUrl_def risk_level_of_def thresholds Let_def)

lemma aggregateRisk_level: "riskLevel (aggregateRisk b fam) = risk_level_of (score (aggregateRisk b fam))"
  by (simp add: aggregateRisk_def risk_level_of_def thresholds Let_def)


text \<open>
  Claim C1. For every score \<open>s \<ge> 0\<close> the risk-level mapping selects exactly one level:
  HIGH iff \<open>s \<ge> 80\<close>, MEDIUM iff \<open>60 \<le> s < 80\<close>, LOW iff \<open>30 \<le> s < 60\<close>, SAFE iff
  \<open>s < 30\<close>. The mapping is non-decreasing in \<open>s\<close>. The two copies of the mapping in the
  source, the one in \<^verbatim>\<open>analyzeUrl\<close> on the raw structural score and the one in
  \<^verbatim>\<open>analyzeUrlWithHistory\<close> on the adjusted score, are this mapping: the level of a
  result is a function of its score alone, whatever the issues are.
\<close>

theorem risk_level_mapping:
  "(0 \<le> s \<longrightarrow>
      (risk_level_of s = HIGH) = (80 \<le> s) \<and>
      (risk_level_of s = MEDIUM) = (60 \<le> s \<and> s < 80) \<and>
      (risk_level_of s = LOW) = (30 \<le> s \<and> s < 60) \<and>
      (risk_level_of s = SAFE) = (s < 30)) \<and>
   (0 \<le> s \<and> s \<le> t \<longrightarrow> level_rank (risk_level_of s) \<le> level_rank (risk_level_of t)) \<and>
   riskLevel (analyzeUrl URL url) = risk_level_of (score (analyzeUrl URL url)) \<and>
   riskLevel (aggregateRisk b fam) = risk_level_of (score (aggregateRisk b fam)) \<and>
   riskLevel (analyzeUrlWithHistory URL search now url) =
     risk_level_of (score (analyzeUrlWithHistory URL search now url))"
proof -
  have bands: "(risk_level_of s = HIGH) = (80 \<le> s) \<and>
      (risk_level_of s = MEDIUM) = (60 \<le> s \<and> s < 80) \<and>
      (risk_level_of s = LOW) = (30 \<le> s \<and> s < 60) \<and>
      (risk_level_of s = SAFE) = (s < 30)"
    by (simp add: risk_level_of_def)
  have mono: "s \<le> t \<Longrightarrow> level_rank (risk_level_of s) \<le> level_rank (risk_level_of t)"
    by (simp add: risk_level_of_def)
  have hist: "riskLevel (analyzeUrlWithHistory URL search now url) =
     risk_level_of (score (analyzeUrlWithHistory URL search now url))"
    unfolding analyzeUrlWithHistory_def Let_def by (rule aggregateRisk_level)
  from bands mono hist show ?thesis
    by (simp only: analyzeUrl_level aggregateRisk_level) blast
qed


text \<open>The mapping at the scores 65 and 85.\<close>

theorem risk_level_mapping_witness:
  "(0::int) \<le> 65 \<and> (65::int) \<le> 85 \<and> risk_level_of 65 = MEDIUM \<and>
   level_rank (risk_level_of 65) \<le> level_rank (risk_level_of 85)"
  using risk_level_mapping [of 65 85 example_URL "''not a url''"
      "\<lparr>score = 0, issues = [], riskLevel = SAFE\<rparr>" LookupFailed "\<lambda>q. None" 0]
  by (simp add: risk_level_of_def)


subsection \<open>Malformed URLs\<close>

text \<open>
  Claim C2. \<^verbatim>\<open>analyzeUrl\<close> does not throw. The exception of the URL constructor is
  a branch of the model, taken by the \<^verbatim>\<open>catch\<close> clause: on every string the
  parser rejects the result has score 20 and the single issue \<^verbatim>\<open>Malformed URL\<close>
  (and risk level SAFE).
\<close>

theorem analyzeUrl_malformed:
  "URL url = None \<Longrightarrow>
   analyzeUrl URL url = \<lparr>score = 20, issues = [''Malformed URL''], riskLevel = SAFE\<rparr>"
  by (simp add: analyzeUrl_def thresholds)


text \<open>The string \<^verbatim>\<open>not a url\<close>, which the parser of the examples rejects.\<close>

theorem analyzeUrl_malformed_witness:
  "example_URL ''not a url'' = None \<and>
   analyzeUrl example_URL ''not a url'' =
     \<lparr>score = 20, issues = [''Malformed URL''], riskLevel = SAFE\<rparr>"
proof -
  have p: "example_URL ''not a url'' = None"
    by (simp add: example_URL_def)
  from p analyzeUrl_malformed [of example_URL "''not a url''"] show ?thesis
    by simp
qed


subsection \<open>Familiarity adjustment\<close>

lemma adjust_first: "fam_firstVisit fam \<Longrightarrow>
  adjust b fam = (score b + 90, issues b @ [''First visit to this domain''])"
  by (cases fam) simp_all

text \<open>
  Claim C3, with the issue texts as the code has them. When the familiarity object has
  \<^verbatim>\<open>firstVisit\<close> true, the aggregated score is the base score plus 90 and the issue
  \<^verbatim>\<open>First visit to this domain\<close> is appended to the base issues. Otherwise the
  aggregated score is \<open>max (base - familiarityScore div 4) 0\<close>, and the issue
  \<^verbatim>\<open>Frequently visited site (N visits)\<close>, with \<open>N\<close> the visit count, is appended
  exactly when \<open>familiarityScore > 70\<close>; for a familiarity score in \<open>[0, 100]\<close> the
  reduction \<open>familiarityScore div 4\<close> lies in \<open>[0, 25]\<close>.
\<close>

theorem aggregate_adjustment:
  "(fam_firstVisit fam \<longrightarrow>
      score (aggregateRisk b fam) = score b + 90 \<and>
      issues (aggregateRisk b fam) = issues b @ [''First visit to this domain'']) \<and>
   (\<not> firstVisit f \<longrightarrow>
      score (aggregateRisk b (Snapshot f)) = max (score b - familiarityScore f div 4) 0 \<and>
      issues (aggregateRisk b (Snapshot f)) =
        issues b @ (if familiarityScore f > 70
                    then [''Frequently visited site ('' @ string_of_nat (visitCount f) @ '' visits)'']
                    else [])) \<and>
   (0 \<le> familiarityScore f \<and> familiarityScore f \<le> 100 \<longrightarrow>
      0 \<le> familiarityScore f div 4 \<and> familiarityScore f div 4 \<le> 25)"
proof -
  have a: "score (aggregateRisk b fam) = score b + 90 \<and>
      issues (aggregateRisk b fam) = issues b @ [''First visit to this domain'']"
    if "fam_firstVisit fam"
    using that by (simp add: aggregateRisk_def Let_def adjust_first)
  have b: "score (aggregateRisk b (Snapshot f)) = max (score b - familiarityScore f div 4) 0 \<and>
      issues (aggregateRisk b (Snapshot f)) =
        issues b @ (if familiarityScore f > 70
                    then [''Frequently visited site ('' @ string_of_nat (visitCount f) @ '' visits)'']
                    else [])"
    if "\<not> firstVisit f"
    using that by (simp add: aggregateRisk_def Let_def)
  have c: "0 \<le> familiarityScore f \<and> familiarityScore f \<le> 100 \<Longrightarrow>
      0 \<le> familiarityScore f div 4 \<and> familiarityScore f div 4 \<le> 25"
    by presburger
  from a b c show ?thesis by blast
qed


text \<open>A first visit on base score 50, and a familiarity score of 100 after 20 visits.\<close>

theorem aggregate_adjustment_witness:
  "fam_firstVisit LookupFailed \<and>
   score (aggregateRisk \<lparr>score = 50, issues = [''x''], riskLevel = LOW\<rparr> LookupFailed) = 140 \<and>
   issues (aggregateRisk \<lparr>score = 50, issues = [''x''], riskLevel = LOW\<rparr> LookupFailed) =
     [''x'', ''First visit to this domain''] \<and>
   \<not> firstVisit \<lparr>familiar = True, firstVisit = False, visitCount = 20,
                  daysSinceLastVisit = 0, familiarityScore = 100\<rparr> \<and>
   (0::int) \<le> 100 \<and>
   score (aggregateRisk \<lparr>score = 50, issues = [''x''], riskLevel = LOW\<rparr>
     (Snapshot \<lparr>familiar = True, firstVisit = False, visitCount = 20,
                daysSinceLastVisit = 0, familiarityScore = 100\<rparr>)) = 25 \<and>
   issues (aggregateRisk \<lparr>score = 50, issues = [''x''], riskLevel = LOW\<rparr>
     (Snapshot \<lparr>familiar = True, firstVisit = False, visitCount = 20,
                daysSinceLastVisit = 0, familiarityScore = 100\<rparr>)) =
     [''x'', ''Frequently visited site (20 visits)'']"
proof -
  have n: "string_of_nat 20 = ''20''"
    by code_simp
  show ?thesis
    using aggregate_adjustment [of LookupFailed "\<lparr>score = 50, issues = [''x''], riskLevel = LOW\<rparr>"
        "\<lparr>familiar = True, firstVisit = False, visitCount = 20,
          daysSinceLastVisit = 0, familiarityScore = 100\<rparr>"]
    by (simp add: n)
qed


text \<open>
  Claim C3 as stated fails on the issue texts: on a first visit the appended issue is
  \<^verbatim>\<open>First visit to this domain\<close>, and the text \<^verbatim>\<open>first visit to this domain\<close> is
  not among the issues; after 20 visits with familiarity score 100 the appended issue is
  \<^verbatim>\<open>Frequently visited site (20 visits)\<close>, and the text
  \<^verbatim>\<open>frequently visited site (20 visits)\<close> is not among the issues.
\<close>

theorem issue_text_counterexample:
  "fam_firstVisit (Snapshot \<lparr>familiar = False, firstVisit = True, visitCount = 0,
                             daysSinceLastVisit = 0, familiarityScore = 0\<rparr>) \<and>
   issues (aggregateRisk \<lparr>score = 50, issues = [''x''], riskLevel = LOW\<rparr>
     (Snapshot \<lparr>familiar = False, firstVisit = True, visitCount = 0,
                daysSinceLastVisit = 0, familiarityScore = 0\<rparr>)) =
     [''x'', ''First visit to this domain''] \<and>
   issues (aggregateRisk \<lparr>score = 50, issues = [''x''], riskLevel = LOW\<rparr>
     (Snapshot \<lparr>familiar = False, firstVisit = True, visitCount = 0,
                daysSinceLastVisit = 0, familiarityScore = 0\<rparr>)) \<noteq>
     [''x''] @ [''first visit to this domain''] \<and>
   ''first visit to this domain'' \<notin> set (issues (aggregateRisk
     \<lparr>score = 50, issues = [''x''], riskLevel = LOW\<rparr>
     (Snapshot \<lparr>familiar = False, firstVisit = True, visitCount = 0,
                daysSinceLastVisit = 0, familiarityScore = 0\<rparr>))) \<and>
   issues (aggregateRisk \<lparr>score = 50, issues = [''x''], riskLevel = LOW\<rparr>
     (Snapshot \<lparr>familiar = True, firstVisit = False, visitCount = 20,
                daysSinceLastVisit = 0, familiarityScore = 100\<rparr>)) =
     [''x'', ''Frequently visited site (20 visits)''] \<and>
   ''frequently visited site (20 visits)'' \<notin> set (issues (aggregateRisk
     \<lparr>score = 50, issues = [''x''], riskLevel = LOW\<rparr>
     (Snapshot \<lparr>familiar = True, firstVisit = False, visitCount = 20,
                daysSinceLastVisit = 0, familiarityScore = 100\<rparr>)))"
proof -
  have n: "string_of_nat 20 = ''20''"
    by code_simp
  show ?thesis
    by (simp add: aggregateRisk_def Let_def n)
qed


subsection \<open>Familiarity score\<close>

lemma fold_max_le: "m \<le> (b::int) \<Longrightarrow> \<forall>x\<in>set xs. x \<le> b \<Longrightarrow> fold max xs m \<le> b"
  by (induction xs arbitrary: m) auto

lemma Math_max_le: "xs \<noteq> [] \<Longrightarrow> \<forall>x\<in>set xs. x \<le> (b::int) \<Longrightarrow> Math_max xs \<le> b"
  unfolding Math_max_def by (cases xs) (auto intro: fold_max_le)

lemma score_range:
  assumes "0 \<le> (d::int)"
  shows "0 \<le> min (int n) 20 * 2 + max (60 - d * 2) 0 \<and> min (int n) 20 * 2 + max (60 - d * 2) 0 \<le> 100"
  using assms by (simp add: min_def max_def)


text \<open>
  Claim C4. When the URL parses and the history lookup answers: if at least one history
  item matches the domain, the returned object has \<open>visitCount\<close> the number of matches,
  \<open>daysSinceLastVisit\<close> the whole days since the most recent matching visit, and
  \<open>familiarityScore = min visitCount 20 * 2 + max (60 - daysSinceLastVisit * 2) 0\<close>.
  On valid input, where no returned visit is later than the clock reading, the
  familiarity score of the returned object lies in \<open>[0, 100]\<close> (it is 0 when nothing
  matches).
\<close>

theorem familiarity_score:
  assumes "URL url = Some urlObj"
    and "search \<lparr>query_text = hostname urlObj, startTime = now - 90 * MS_PER_DAY,
                 endTime = now - 5000, maxResults = 1000\<rparr> = Some historyItems"
  shows "(filter (isMatch URL (hostname urlObj)) historyItems \<noteq> [] \<longrightarrow>
           (\<exists>f. checkBrowserHistory URL search now url = Snapshot f \<and>
                visitCount f = length (filter (isMatch URL (hostname urlObj)) historyItems) \<and>
                daysSinceLastVisit f =
                  (now - Math_max (map lastVisitTime (filter (isMatch URL (hostname urlObj)) historyItems)))
                    div MS_PER_DAY \<and>
                familiarityScore f =
                  min (int (visitCount f)) 20 * 2 + max (60 - daysSinceLastVisit f * 2) 0)) \<and>
         ((\<forall>item \<in> set historyItems. lastVisitTime item \<le> now) \<longrightarrow>
           (\<exists>f. checkBrowserHistory URL search now url = Snapshot f \<and>
                0 \<le> familiarityScore f \<and> familiarityScore f \<le> 100))"
proof -
  let ?ms = "filter (isMatch URL (hostname urlObj)) historyItems"
  let ?d = "(now - Math_max (map lastVisitTime ?ms)) div MS_PER_DAY"
  have none: "?ms = [] \<Longrightarrow> checkBrowserHistory URL search now url =
      Snapshot \<lparr>familiar = False, firstVisit = True, visitCount = 0,
                daysSinceLastVisit = 0, familiarityScore = 0\<rparr>"
    using assms by (simp add: checkBrowserHistory_def Let_def)
  have some: "?ms \<noteq> [] \<Longrightarrow> checkBrowserHistory URL search now url =
      Snapshot \<lparr>familiar = True, firstVisit = False, visitCount = length ?ms,
                daysSinceLastVisit = ?d,
                familiarityScore = min (int (length ?ms)) 20 * 2 + max (60 - ?d * 2) 0\<rparr>"
    using assms by (simp add: checkBrowserHistory_def Let_def)
  have days: "0 \<le> ?d" if ne: "?ms \<noteq> []" and le: "\<forall>item \<in> set historyItems. lastVisitTime item \<le> now"
  proof -
    have "Math_max (map lastVisitTime ?ms) \<le> now"
      using ne le by (intro Math_max_le) auto
    then show ?thesis by (simp add: MS_PER_DAY_def pos_imp_zdiv_nonneg_iff)
  qed
  have first: "?ms \<noteq> [] \<longrightarrow>
           (\<exists>f. checkBrowserHistory URL search now url = Snapshot f \<and>
                visitCount f = length ?ms \<and> daysSinceLastVisit f = ?d \<and>
                familiarityScore f =
                  min (int (visitCount f)) 20 * 2 + max (60 - daysSinceLastVisit f * 2) 0)"
    using some by simp
  have second: "(\<forall>item \<in> set historyItems. lastVisitTime item \<le> now) \<longrightarrow>
           (\<exists>f. checkBrowserHistory URL search now url = Snapshot f \<and>
                0 \<le> familiarityScore f \<and> familiarityScore f \<le> 100)"
  proof (cases "?ms = []")
    case True
    then show ?thesis using none by simp
  next
    case False
    show ?thesis
    proof
      assume le: "\<forall>item \<in> set historyItems. lastVisitTime item \<le> now"
      from score_range [OF days [OF False le], of "length ?ms"] some [OF False]
      show "\<exists>f. checkBrowserHistory URL search now url = Snapshot f \<and>
                0 \<le> familiarityScore f \<and> familiarityScore f \<le> 100"
        by simp
    qed
  qed
  from first second show ?thesis by (rule conjI)
qed


text \<open>One matching visit three days ago next to a visit of another domain.\<close>

theorem familiarity_score_witness:
  "example_URL ''https://example.com/'' = Some \<lparr>hostname = ''example.com'', pathname = ''/''\<rparr> \<and>
   filter (isMatch example_URL ''example.com'')
     [\<lparr>item_url = ''https://a.example.com/news'', lastVisitTime = 1000\<rparr>,
      \<lparr>item_url = ''https://notexample.com/'', lastVisitTime = 2000\<rparr>] =
     [\<lparr>item_url = ''https://a.example.com/news'', lastVisitTime = 1000\<rparr>] \<and>
   lastVisitTime \<lparr>item_url = ''https://a.example.com/news'', lastVisitTime = 1000\<rparr> \<le> 259201000 \<and>
   lastVisitTime \<lparr>item_url = ''https://notexample.com/'', lastVisitTime = 2000\<rparr> \<le> 259201000 \<and>
   (\<exists>f. checkBrowserHistory example_URL
          (\<lambda>q. Some [\<lparr>item_url = ''https://a.example.com/news'', lastVisitTime = 1000\<rparr>,
                      \<lparr>item_url = ''https://notexample.com/'', lastVisitTime = 2000\<rparr>])
          259201000 ''https://example.com/'' = Snapshot f \<and>
        visitCount f = 1 \<and> daysSinceLastVisit f = 3 \<and> familiarityScore f = 2 + 54) \<and>
   (\<exists>f. checkBrowserHistory example_URL
          (\<lambda>q. Some [\<lparr>item_url = ''https://a.example.com/news'', lastVisitTime = 1000\<rparr>,
                      \<lparr>item_url = ''https://notexample.com/'', lastVisitTime = 2000\<rparr>])
          259201000 ''https://example.com/'' = Snapshot f \<and>
        0 \<le> familiarityScore f \<and> familiarityScore f \<le> 100)"
proof -
  let ?items = "[\<lparr>item_url = ''https://a.example.com/news'', lastVisitTime = 1000\<rparr>,
      \<lparr>item_url = ''https://notexample.com/'', lastVisitTime = 2000\<rparr>]"
  have p: "example_URL ''https://example.com/'' = Some \<lparr>hostname = ''example.com'', pathname = ''/''\<rparr>"
    by (simp add: example_URL_def)
  have m: "filter (isMatch example_URL ''example.com'') ?items =
      [\<lparr>item_url = ''https://a.example.com/news'', lastVisitTime = 1000\<rparr>]"
    by code_simp
  have v: "\<forall>item \<in> set ?items. lastVisitTime item \<le> 259201000"
    by simp
  note t = familiarity_score [of example_URL "''https://example.com/''"
      "\<lparr>hostname = ''example.com'', pathname = ''/''\<rparr>" "\<lambda>q. Some ?items" 259201000 ?items,
      OF p refl, unfolded url_obj.select_convs m]
  from t have "\<exists>f. checkBrowserHistory example_URL (\<lambda>q. Some ?items) 259201000
        ''https://example.com/'' = Snapshot f \<and>
      visitCount f = 1 \<and> daysSinceLastVisit f = 3 \<and> familiarityScore f = 2 + 54"
    by (auto simp: Math_max_def MS_PER_DAY_def)
  moreover from t v have "\<exists>f. checkBrowserHistory example_URL (\<lambda>q. Some ?items) 259201000
        ''https://example.com/'' = Snapshot f \<and>
      0 \<le> familiarityScore f \<and> familiarityScore f \<le> 100"
    by blast
  ultimately show ?thesis
    using p m by simp
qed


subsection \<open>The indicators of the URL analyzer as a sum\<close>

text \<open>
  Every indicator adds its weight and pushes its issue independently of the others, so
  the block computes a sum of weights and a concatenation of issues.
\<close>

lemma indicator_eq:
  "indicator b w i st = (fst st + (if b then w else 0), snd st @ (if b then [i] else []))"
  by (simp add: indicator_def)

lemma fold_indicator:
  "fold (\<lambda>x. indicator (P x) w (msg x)) xs st =
     (fst st + w * int (length (filter P xs)), snd st @ map msg (filter P xs))"
  by (induction xs arbitrary: st) (simp_all add: indicator_def algebra_simps)

lemma try_block_eq:
  "try_block urlObj url st =
     (fst st
        + (if test IP_PATTERN (hostname urlObj) then 40 else 0)
        + (if toLowerCase (last (split CHR ''.'' (hostname urlObj))) \<in> set SUSPICIOUS_TLDS then 15 else 0)
        + (if int (length (hostname urlObj)) > 30 then 15 else 0)
        + (if int (length (split CHR ''.'' (hostname urlObj))) - 2 > 3 then 15 else 0)
        + (if length (match_hyphens (hostname urlObj)) > 1 then 10 else 0)
        + 10 * int (length (filter (\<lambda>p. test p (hostname urlObj) \<or> test p (pathname urlObj))
                              SUSPICIOUS_PATTERNS))
        + 5 * int (length (filter (str_includes (hostname urlObj)) SECURITY_TERMS))
        + (if str_includes url ''%'' then 10 else 0),
      snd st
        @ (if test IP_PATTERN (hostname urlObj) then [''IP address used as hostname''] else [])
        @ (if toLowerCase (last (split CHR ''.'' (hostname urlObj))) \<in> set SUSPICIOUS_TLDS
           then [''Suspicious TLD: .'' @ toLowerCase (last (split CHR ''.'' (hostname urlObj)))] else [])
        @ (if int (length (hostname urlObj)) > 30 then [''Unusually long domain name''] else [])
        @ (if int (length (split CHR ''.'' (hostname urlObj))) - 2 > 3
           then [''Excessive number of subdomains''] else [])
        @ (if length (match_hyphens (hostname urlObj)) > 1 then [''Multiple hyphens in domain''] else [])
        @ map (\<lambda>p. ''Suspicious pattern detected: /'' @ source p @ ''/'')
            (filter (\<lambda>p. test p (hostname urlObj) \<or> test p (pathname urlObj)) SUSPICIOUS_PATTERNS)
        @ map (\<lambda>t. ''Security term in domain: '' @ [CHR 0x22] @ t @ [CHR 0x22])
            (filter (str_includes (hostname urlObj)) SECURITY_TERMS)
        @ (if str_includes url ''%'' then [''URL contains encoded characters''] else []))"
  unfolding try_block_def Let_def fold_indicator indicator_eq
  by (simp only: fst_conv snd_conv append_assoc add.assoc)

lemma analyzeUrl_parsed:
  "URL url = Some urlObj \<Longrightarrow>
   score (analyzeUrl URL url) = fst (try_block urlObj url (0, [])) \<and>
   issues (analyzeUrl URL url) = snd (try_block urlObj url (0, []))"
  by (simp add: analyzeUrl_def Let_def)


subsection \<open>The dotted-quad pattern\<close>

lemma takeWhile_take:
  "k \<le> length (takeWhile P s) \<Longrightarrow> list_all P (take k s)"
proof (induction s arbitrary: k)
  case Nil
  then show ?case by simp
next
  case (Cons x xs)
  then show ?case by (cases k) (auto split: if_splits)
qed

lemma length_takeWhile_append:
  "list_all P g \<Longrightarrow> length g \<le> length (takeWhile P (g @ t))"
  by (induction g) auto

lemma match_here_Ch:
  "match_here (Ch c # as) e s = (\<exists>t. s = c # t \<and> match_here as e t)"
  by (cases s) auto

lemma match_here_Rep:
  "match_here (Rep cls lo (Some hi) # as) e s =
     (\<exists>g t. s = g @ t \<and> lo \<le> length g \<and> length g \<le> hi \<and>
            list_all (\<lambda>c. c \<in> set cls) g \<and> match_here as e t)"
proof
  assume "match_here (Rep cls lo (Some hi) # as) e s"
  then obtain k where k: "lo \<le> k" "k \<le> length (takeWhile (\<lambda>c. c \<in> set cls) s)" "k \<le> hi"
      "match_here as e (drop k s)"
    by (auto simp: list_ex_iff)
  have "k \<le> length s" using k(2) length_takeWhile_le [of "\<lambda>c. c \<in> set cls" s] by linarith
  then have "length (take k s) = k" by simp
  with k takeWhile_take [OF k(2)] have
    "s = take k s @ drop k s \<and> lo \<le> length (take k s) \<and> length (take k s) \<le> hi \<and>
     list_all (\<lambda>c. c \<in> set cls) (take k s) \<and> match_here as e (drop k s)"
    by simp
  then show "\<exists>g t. s = g @ t \<and> lo \<le> length g \<and> length g \<le> hi \<and>
            list_all (\<lambda>c. c \<in> set cls) g \<and> match_here as e t"
    by blast
next
  assume "\<exists>g t. s = g @ t \<and> lo \<le> length g \<and> length g \<le> hi \<and>
            list_all (\<lambda>c. c \<in> set cls) g \<and> match_here as e t"
  then obtain g t where gt: "s = g @ t" "lo \<le> length g" "length g \<le> hi"
      "list_all (\<lambda>c. c \<in> set cls) g" "match_here as e t"
    by blast
  have "length g \<le> length (takeWhile (\<lambda>c. c \<in> set cls) s)"
    using gt(1,4) by (simp add: length_takeWhile_append)
  with gt(2,3) have mem: "length g \<in> set (filter (\<lambda>k. case Some hi of None \<Rightarrow> True | Some h \<Rightarrow> k \<le> h)
          [lo ..< Suc (length (takeWhile (\<lambda>c. c \<in> set cls) s))])"
    by auto
  have "match_here as e (drop (length g) s)"
    using gt(1,5) by simp
  with mem show "match_here (Rep cls lo (Some hi) # as) e s"
    unfolding match_here.simps list_ex_iff by blast
qed

lemma match_here_group_Ch:
  "match_here (Rep digit_class 1 (Some 3) # Ch c # as) e s =
     (\<exists>g t. s = g @ c # t \<and> digit_group g \<and> match_here as e t)"
  unfolding match_here_Rep match_here_Ch digit_group_def by blast

lemma match_here_group_end:
  "match_here [Rep digit_class 1 (Some 3)] True s = digit_group s"
  unfolding match_here_Rep digit_group_def by (simp add: conj_ac)

lemma test_IP_PATTERN:
  "test IP_PATTERN h =
     (\<exists>a b c d. h = a @ ''.'' @ b @ ''.'' @ c @ ''.'' @ d \<and>
        digit_group a \<and> digit_group b \<and> digit_group c \<and> digit_group d)"
proof -
  have "test IP_PATTERN h =
      (\<exists>a t1. h = a @ CHR ''.'' # t1 \<and> digit_group a \<and>
        (\<exists>b t2. t1 = b @ CHR ''.'' # t2 \<and> digit_group b \<and>
          (\<exists>c d. t2 = c @ CHR ''.'' # d \<and> digit_group c \<and> digit_group d)))"
    unfolding test_def IP_PATTERN_def
    by (simp only: regex.simps if_True match_here_group_Ch match_here_group_end)
  also have "\<dots> = (\<exists>a b c d. h = a @ ''.'' @ b @ ''.'' @ c @ ''.'' @ d \<and>
        digit_group a \<and> digit_group b \<and> digit_group c \<and> digit_group d)"
    (is "?L = ?R")
  proof
    assume ?L
    then show ?R by auto
  next
    assume ?R
    then obtain a b c d where
      h: "h = a @ CHR ''.'' # b @ CHR ''.'' # c @ CHR ''.'' # d"
      and g: "digit_group a" "digit_group b" "digit_group c" "digit_group d"
      by auto
    from g(3,4) have 3: "\<exists>c' d'. c @ CHR ''.'' # d = c' @ CHR ''.'' # d' \<and> digit_group c' \<and> digit_group d'"
      by blast
    with g(2) have 2: "\<exists>b' t2. b @ CHR ''.'' # c @ CHR ''.'' # d = b' @ CHR ''.'' # t2 \<and> digit_group b' \<and>
          (\<exists>c' d'. t2 = c' @ CHR ''.'' # d' \<and> digit_group c' \<and> digit_group d')"
      by blast
    with g(1) h show ?L
      by blast
  qed
  finally show ?thesis .
qed


subsection \<open>Scenario: an IP address host with a login path\<close>

lemma ip_login_fact1: "filter (\<lambda>p. test p ''192.168.1.1'' \<or> test p ''/login'') SUSPICIOUS_PATTERNS = [word ''login'']"
  by code_simp

lemma ip_login_fact2: "filter (str_includes ''192.168.1.1'') SECURITY_TERMS = []"
  by code_simp

lemma ip_login_fact3: "toLowerCase (last (split CHR ''.'' ''192.168.1.1'')) = ''1''"
  by code_simp

lemma ip_login_fact4: "length (split CHR ''.'' ''192.168.1.1'') = 4"
  by code_simp

lemma ip_login_fact5: "test IP_PATTERN ''192.168.1.1''"
  by code_simp

lemma ip_login_fact6: "length (match_hyphens ''192.168.1.1'') = 0"
  by code_simp

lemma ip_login_fact7: "\<not> str_includes ''http://192.168.1.1/login'' ''%''"
  by code_simp

lemma ip_login_fact8: "''1'' \<notin> set SUSPICIOUS_TLDS"
  by code_simp

lemma try_block_ip_login:
  "try_block \<lparr>hostname = ''192.168.1.1'', pathname = ''/login''\<rparr> ''http://192.168.1.1/login'' (0, []) =
     (50, [''IP address used as hostname'', ''Suspicious pattern detected: /login/''])"
  unfolding try_block_eq
  apply (simp only: url_obj.select_convs ip_login_fact1 ip_login_fact2 ip_login_fact3 ip_login_fact4 ip_login_fact5 ip_login_fact6 ip_login_fact7 ip_login_fact8)
  apply (simp add: word_def)
  done


text \<open>
  Claim C5. On \<^verbatim>\<open>http://192.168.1.1/login\<close>, which the platform's parser splits
  into host \<^verbatim>\<open>192.168.1.1\<close> and path \<^verbatim>\<open>/login\<close>, \<^verbatim>\<open>analyzeUrl\<close> returns
  score 50 with the issues \<^verbatim>\<open>IP address used as hostname\<close> (weight 40) and the
  pattern match for \<^verbatim>\<open>login\<close> (weight 10). Aggregated with a familiarity object
  whose \<^verbatim>\<open>firstVisit\<close> is true, the adjusted score is 140 and the risk level HIGH.
\<close>

theorem scenario_ip_login:
  assumes "URL ''http://192.168.1.1/login'' =
             Some \<lparr>hostname = ''192.168.1.1'', pathname = ''/login''\<rparr>"
  shows "analyzeUrl URL ''http://192.168.1.1/login'' =
           \<lparr>score = 40 + 10,
            issues = [''IP address used as hostname'', ''Suspicious pattern detected: /login/''],
            riskLevel = LOW\<rparr> \<and>
         (fam_firstVisit fam \<longrightarrow>
            score (aggregateRisk (analyzeUrl URL ''http://192.168.1.1/login'') fam) = 140 \<and>
            riskLevel (aggregateRisk (analyzeUrl URL ''http://192.168.1.1/login'') fam) = HIGH) \<and>
         (fam_firstVisit (checkBrowserHistory URL search now ''http://192.168.1.1/login'') \<longrightarrow>
            score (analyzeUrlWithHistory URL search now ''http://192.168.1.1/login'') = 140 \<and>
            riskLevel (analyzeUrlWithHistory URL search now ''http://192.168.1.1/login'') = HIGH)"
proof -
  have base: "analyzeUrl URL ''http://192.168.1.1/login'' =
           \<lparr>score = 50,
            issues = [''IP address used as hostname'', ''Suspicious pattern detected: /login/''],
            riskLevel = LOW\<rparr>"
    using assms by (simp add: analyzeUrl_def try_block_ip_login thresholds)
  have agg: "score (aggregateRisk (analyzeUrl URL ''http://192.168.1.1/login'') f) = 140 \<and>
            riskLevel (aggregateRisk (analyzeUrl URL ''http://192.168.1.1/login'') f) = HIGH"
    if "fam_firstVisit f" for f
    using that by (simp add: base aggregateRisk_def adjust_first thresholds)
  show ?thesis
    using base agg [of fam] agg [of "checkBrowserHistory URL search now ''http://192.168.1.1/login''"]
    by (simp add: analyzeUrlWithHistory_def)
qed


text \<open>The scenario with the parser of the examples and a failed history lookup.\<close>

theorem scenario_ip_login_witness:
  "example_URL ''http://192.168.1.1/login'' =
     Some \<lparr>hostname = ''192.168.1.1'', pathname = ''/login''\<rparr> \<and>
   fam_firstVisit LookupFailed \<and>
   score (analyzeUrl example_URL ''http://192.168.1.1/login'') = 50 \<and>
   score (aggregateRisk (analyzeUrl example_URL ''http://192.168.1.1/login'') LookupFailed) = 140 \<and>
   riskLevel (aggregateRisk (analyzeUrl example_URL ''http://192.168.1.1/login'') LookupFailed) = HIGH"
proof -
  have p: "example_URL ''http://192.168.1.1/login'' =
     Some \<lparr>hostname = ''192.168.1.1'', pathname = ''/login''\<rparr>"
    by (simp add: example_URL_def)
  show ?thesis
    using p scenario_ip_login [of example_URL LookupFailed "\<lambda>q. None" 0] by auto
qed


subsection \<open>Scenario: a look-alike payment host\<close>

lemma paypal_host_fact1: "\<not> test IP_PATTERN ''paypal-secure-login.xyz''"
  by code_simp

lemma paypal_host_fact2: "toLowerCase (last (split CHR ''.'' ''paypal-secure-login.xyz'')) = ''xyz''"
  by code_simp

lemma paypal_host_fact3: "length (split CHR ''.'' ''paypal-secure-login.xyz'') = 2"
  by code_simp

lemma paypal_host_fact4: "length (match_hyphens ''paypal-secure-login.xyz'') = 2"
  by code_simp

lemma paypal_host_fact5: "filter (str_includes ''paypal-secure-login.xyz'') SECURITY_TERMS = [''secure'']"
  by code_simp

lemma paypal_host_fact6: "test (word ''secure'') ''paypal-secure-login.xyz''"
  by code_simp

lemma paypal_host_fact7: "test (word ''login'') ''paypal-secure-login.xyz''"
  by code_simp

lemma paypal_host_fact8: "filter (\<lambda>p. test p ''paypal-secure-login.xyz'' \<or> test p ''/'') SUSPICIOUS_PATTERNS =
  [word ''secure'', word ''login'', word ''paypal'']" by code_simp

lemma paypal_host_fact9: "''xyz'' \<in> set SUSPICIOUS_TLDS"
  by code_simp

lemma paypal_host_fact10: "word ''secure'' \<in> set SUSPICIOUS_PATTERNS"
  by (simp add: SUSPICIOUS_PATTERNS_def)

lemma paypal_host_fact11: "word ''login'' \<in> set SUSPICIOUS_PATTERNS"
  by (simp add: SUSPICIOUS_PATTERNS_def)

lemma try_block_paypal_host:
  "try_block \<lparr>hostname = ''paypal-secure-login.xyz'', pathname = p\<rparr> url (0, []) =
     (15 + 10
        + 10 * int (length (filter (\<lambda>r. test r ''paypal-secure-login.xyz'' \<or> test r p) SUSPICIOUS_PATTERNS))
        + 5 + (if str_includes url ''%'' then 10 else 0),
      [''Suspicious TLD: .xyz'', ''Multiple hyphens in domain'']
        @ map (\<lambda>r. ''Suspicious pattern detected: /'' @ source r @ ''/'')
            (filter (\<lambda>r. test r ''paypal-secure-login.xyz'' \<or> test r p) SUSPICIOUS_PATTERNS)
        @ [''Security term in domain: '' @ [CHR 0x22] @ ''secure'' @ [CHR 0x22]]
        @ (if str_includes url ''%'' then [''URL contains encoded characters''] else []))"
  unfolding try_block_eq
  apply (simp only: url_obj.select_convs paypal_host_fact1 paypal_host_fact2 paypal_host_fact3 paypal_host_fact4 paypal_host_fact5 paypal_host_fact9)
  apply simp
  done


text \<open>
  Claim C6. For a URL with host \<^verbatim>\<open>paypal-secure-login.xyz\<close>, \<^verbatim>\<open>analyzeUrl\<close>
  triggers the suspicious-TLD indicator (15), the multiple-hyphens indicator (10), the
  pattern matches for \<^verbatim>\<open>secure\<close> and \<^verbatim>\<open>login\<close> (10 each) and the security term
  \<^verbatim>\<open>secure\<close> (5). The score is the sum of the contributions of everything that
  triggers, each counted on its own: 15 + 10, 10 for every matching pattern, 5 for the
  term, and 10 when the URL contains a percent sign. With the path \<^verbatim>\<open>/\<close> and no
  percent sign the matching patterns are \<^verbatim>\<open>secure\<close>, \<^verbatim>\<open>login\<close> and
  \<^verbatim>\<open>paypal\<close>, and the score is 60, where \<^verbatim>\<open>secure\<close> counts both as a pattern and
  as a term.
\<close>

theorem paypal_secure_login:
  assumes "URL url = Some urlObj" and "hostname urlObj = ''paypal-secure-login.xyz''"
  shows "set [''Suspicious TLD: .xyz'', ''Multiple hyphens in domain'',
              ''Suspicious pattern detected: /secure/'', ''Suspicious pattern detected: /login/'',
              ''Security term in domain: '' @ [CHR 0x22] @ ''secure'' @ [CHR 0x22]]
           \<subseteq> set (issues (analyzeUrl URL url)) \<and>
         score (analyzeUrl URL url) =
           15 + 10
           + 10 * int (length (filter (\<lambda>r. test r (hostname urlObj) \<or> test r (pathname urlObj))
                                 SUSPICIOUS_PATTERNS))
           + 5 + (if str_includes url ''%'' then 10 else 0) \<and>
         word ''secure'' \<in> set (filter (\<lambda>r. test r (hostname urlObj) \<or> test r (pathname urlObj))
                                   SUSPICIOUS_PATTERNS) \<and>
         word ''login'' \<in> set (filter (\<lambda>r. test r (hostname urlObj) \<or> test r (pathname urlObj))
                                  SUSPICIOUS_PATTERNS) \<and>
         (pathname urlObj = ''/'' \<and> \<not> str_includes url ''%'' \<longrightarrow>
            analyzeUrl URL url =
              \<lparr>score = 15 + 10 + 10 + 10 + 10 + 5,
               issues = [''Suspicious TLD: .xyz'', ''Multiple hyphens in domain'',
                         ''Suspicious pattern detected: /secure/'',
                         ''Suspicious pattern detected: /login/'',
                         ''Suspicious pattern detected: /paypal/'',
                         ''Security term in domain: '' @ [CHR 0x22] @ ''secure'' @ [CHR 0x22]],
               riskLevel = MEDIUM\<rparr>)"
proof -
  let ?h = "''paypal-secure-login.xyz''"
  let ?ms = "filter (\<lambda>r. test r ?h \<or> test r (pathname urlObj)) SUSPICIOUS_PATTERNS"
  have obj: "urlObj = \<lparr>hostname = ?h, pathname = pathname urlObj\<rparr>"
    using assms(2) by (cases urlObj) simp
  have tb: "try_block urlObj url (0, []) =
     (15 + 10 + 10 * int (length ?ms) + 5 + (if str_includes url ''%'' then 10 else 0),
      [''Suspicious TLD: .xyz'', ''Multiple hyphens in domain'']
        @ map (\<lambda>r. ''Suspicious pattern detected: /'' @ source r @ ''/'') ?ms
        @ [''Security term in domain: '' @ [CHR 0x22] @ ''secure'' @ [CHR 0x22]]
        @ (if str_includes url ''%'' then [''URL contains encoded characters''] else []))"
    by (subst obj) (rule try_block_paypal_host)
  have sec: "word ''secure'' \<in> set ?ms"
    using paypal_host_fact6 paypal_host_fact10 by simp
  have log: "word ''login'' \<in> set ?ms"
    using paypal_host_fact7 paypal_host_fact11 by simp
  have sec_issue: "''Suspicious pattern detected: /secure/''
      \<in> (\<lambda>r. ''Suspicious pattern detected: /'' @ source r @ ''/'') ` set ?ms"
    using sec by (rule rev_image_eqI) (simp add: word_def)
  have log_issue: "''Suspicious pattern detected: /login/''
      \<in> (\<lambda>r. ''Suspicious pattern detected: /'' @ source r @ ''/'') ` set ?ms"
    using log by (rule rev_image_eqI) (simp add: word_def)
  have issues_part: "set [''Suspicious TLD: .xyz'', ''Multiple hyphens in domain'',
              ''Suspicious pattern detected: /secure/'', ''Suspicious pattern detected: /login/'',
              ''Security term in domain: '' @ [CHR 0x22] @ ''secure'' @ [CHR 0x22]]
           \<subseteq> set (issues (analyzeUrl URL url))"
    using sec_issue log_issue by (simp add: analyzeUrl_parsed [where URL = URL and url = url, OF assms(1)] tb)
  have score_part: "score (analyzeUrl URL url) =
           15 + 10 + 10 * int (length ?ms) + 5 + (if str_includes url ''%'' then 10 else 0)"
    by (simp add: analyzeUrl_parsed [where URL = URL and url = url, OF assms(1)] tb)
  have concrete: "analyzeUrl URL url =
              \<lparr>score = 15 + 10 + 10 + 10 + 10 + 5,
               issues = [''Suspicious TLD: .xyz'', ''Multiple hyphens in domain'',
                         ''Suspicious pattern detected: /secure/'',
                         ''Suspicious pattern detected: /login/'',
                         ''Suspicious pattern detected: /paypal/'',
                         ''Security term in domain: '' @ [CHR 0x22] @ ''secure'' @ [CHR 0x22]],
               riskLevel = MEDIUM\<rparr>"
    if "pathname urlObj = ''/''" and "\<not> str_includes url ''%''"
    using that assms(1) by (simp add: analyzeUrl_def tb paypal_host_fact8 thresholds word_def)
  show ?thesis
    using issues_part score_part sec log concrete by (simp only: assms(2)) blast
qed


text \<open>The host with the path \<^verbatim>\<open>/\<close>.\<close>

theorem paypal_secure_login_witness:
  "example_URL ''https://paypal-secure-login.xyz/'' =
     Some \<lparr>hostname = ''paypal-secure-login.xyz'', pathname = ''/''\<rparr> \<and>
   score (analyzeUrl example_URL ''https://paypal-secure-login.xyz/'') = 60 \<and>
   riskLevel (analyzeUrl example_URL ''https://paypal-secure-login.xyz/'') = MEDIUM"
proof -
  have p: "example_URL ''https://paypal-secure-login.xyz/'' =
     Some \<lparr>hostname = ''paypal-secure-login.xyz'', pathname = ''/''\<rparr>"
    by (simp add: example_URL_def)
  have n: "\<not> str_includes ''https://paypal-secure-login.xyz/'' ''%''"
    by code_simp
  show ?thesis
    using p n paypal_secure_login [of example_URL "''https://paypal-secure-login.xyz/''"
        "\<lparr>hostname = ''paypal-secure-login.xyz'', pathname = ''/''\<rparr>"]
    by auto
qed


subsection \<open>The IP-address indicator\<close>

lemma ip_issue_mem:
  "(''IP address used as hostname'' \<in> set (snd (try_block urlObj url (0, [])))) =
     test IP_PATTERN (hostname urlObj)"
  unfolding try_block_eq by (auto simp: image_iff)

lemma quad_999_matches: "test IP_PATTERN ''999.999.999.999''"
  by code_simp


text \<open>
  Claim C10. The indicator \<^verbatim>\<open>IP address used as hostname\<close> fires, adding 40 and its
  issue, exactly for the host names of the shape \<open>d.d.d.d\<close> with each \<open>d\<close> one to three
  decimal digits. The groups are not range-checked: the host name
  \<^verbatim>\<open>999.999.999.999\<close> is scored as an IP address. A host name of any other shape
  never triggers the indicator.
\<close>

theorem ip_indicator:
  assumes "URL url = Some urlObj"
  shows "((''IP address used as hostname'' \<in> set (issues (analyzeUrl URL url))) =
            (\<exists>a b c d. hostname urlObj = a @ ''.'' @ b @ ''.'' @ c @ ''.'' @ d \<and>
               digit_group a \<and> digit_group b \<and> digit_group c \<and> digit_group d)) \<and>
         score (analyzeUrl URL url) =
           (if \<exists>a b c d. hostname urlObj = a @ ''.'' @ b @ ''.'' @ c @ ''.'' @ d \<and>
                 digit_group a \<and> digit_group b \<and> digit_group c \<and> digit_group d
            then 40 else 0)
           + (if toLowerCase (last (split CHR ''.'' (hostname urlObj))) \<in> set SUSPICIOUS_TLDS
              then 15 else 0)
           + (if int (length (hostname urlObj)) > 30 then 15 else 0)
           + (if int (length (split CHR ''.'' (hostname urlObj))) - 2 > 3 then 15 else 0)
           + (if length (match_hyphens (hostname urlObj)) > 1 then 10 else 0)
           + 10 * int (length (filter (\<lambda>p. test p (hostname urlObj) \<or> test p (pathname urlObj))
                                 SUSPICIOUS_PATTERNS))
           + 5 * int (length (filter (str_includes (hostname urlObj)) SECURITY_TERMS))
           + (if str_includes url ''%'' then 10 else 0) \<and>
         (hostname urlObj = ''999.999.999.999'' \<longrightarrow>
            ''IP address used as hostname'' \<in> set (issues (analyzeUrl URL url)) \<and>
            40 \<le> score (analyzeUrl URL url))"
proof -
  note ap = analyzeUrl_parsed [where URL = URL and url = url, OF assms]
  have mem: "(''IP address used as hostname'' \<in> set (issues (analyzeUrl URL url))) =
      test IP_PATTERN (hostname urlObj)"
    by (simp only: ap ip_issue_mem)
  have sc: "score (analyzeUrl URL url) =
           (if test IP_PATTERN (hostname urlObj) then 40 else 0)
           + (if toLowerCase (last (split CHR ''.'' (hostname urlObj))) \<in> set SUSPICIOUS_TLDS
              then 15 else 0)
           + (if int (length (hostname urlObj)) > 30 then 15 else 0)
           + (if int (length (split CHR ''.'' (hostname urlObj))) - 2 > 3 then 15 else 0)
           + (if length (match_hyphens (hostname urlObj)) > 1 then 10 else 0)
           + 10 * int (length (filter (\<lambda>p. test p (hostname urlObj) \<or> test p (pathname urlObj))
                                 SUSPICIOUS_PATTERNS))
           + 5 * int (length (filter (str_includes (hostname urlObj)) SECURITY_TERMS))
           + (if str_includes url ''%'' then 10 else 0)"
    by (simp only: ap try_block_eq fst_conv add_0)
  have q: "''IP address used as hostname'' \<in> set (issues (analyzeUrl URL url)) \<and>
            40 \<le> score (analyzeUrl URL url)"
    if "hostname urlObj = ''999.999.999.999''"
  proof -
    have t: "test IP_PATTERN (hostname urlObj)" using that quad_999_matches by simp
    then have "''IP address used as hostname'' \<in> set (issues (analyzeUrl URL url))"
      using mem by simp
    moreover have "40 \<le> score (analyzeUrl URL url)"
      unfolding sc using t by simp
    ultimately show ?thesis by simp
  qed
  show ?thesis
    using mem sc q unfolding test_IP_PATTERN by blast
qed


text \<open>A URL whose host name the parser of the examples returns as \<^verbatim>\<open>999.999.999.999\<close>.\<close>

theorem ip_indicator_witness:
  "example_URL ''foo://999.999.999.999/'' =
     Some \<lparr>hostname = ''999.999.999.999'', pathname = ''/''\<rparr> \<and>
   ''IP address used as hostname'' \<in> set (issues (analyzeUrl example_URL ''foo://999.999.999.999/'')) \<and>
   40 \<le> score (analyzeUrl example_URL ''foo://999.999.999.999/'')"
proof -
  have p: "example_URL ''foo://999.999.999.999/'' =
     Some \<lparr>hostname = ''999.999.999.999'', pathname = ''/''\<rparr>"
    by (simp add: example_URL_def)
  show ?thesis
    using p ip_indicator [of example_URL "''foo://999.999.999.999/''"
        "\<lparr>hostname = ''999.999.999.999'', pathname = ''/''\<rparr>",
        THEN conjunct2, THEN conjunct2]
    by simp
qed


subsection \<open>The same-domain test\<close>

lemma endsWith_iff: "endsWith s t = (\<exists>p. s = p @ t)"
  by (simp add: endsWith_def suffix_def)


text \<open>
  Claim C8. The same-domain test of the familiarity evaluator holds exactly when the two
  host names are equal or one of them ends with a dot followed by the other:
  \<^verbatim>\<open>a.example.com\<close> and \<^verbatim>\<open>example.com\<close> match in both orders, while
  \<^verbatim>\<open>notexample.com\<close> and \<^verbatim>\<open>example.com\<close> do not match.
\<close>

theorem same_domain_rule:
  "same_domain x y =
     (x = y \<or> (\<exists>p. x = p @ ''.'' @ y) \<or> (\<exists>p. y = p @ ''.'' @ x)) \<and>
   same_domain ''a.example.com'' ''example.com'' \<and>
   same_domain ''example.com'' ''a.example.com'' \<and>
   \<not> same_domain ''notexample.com'' ''example.com'' \<and>
   \<not> same_domain ''example.com'' ''notexample.com''"
proof -
  have gen: "same_domain x y =
     (x = y \<or> (\<exists>p. x = p @ ''.'' @ y) \<or> (\<exists>p. y = p @ ''.'' @ x))" for x y
    by (simp add: same_domain_def endsWith_iff)
  have a: "same_domain ''a.example.com'' ''example.com''" by code_simp
  have b: "same_domain ''example.com'' ''a.example.com''" by code_simp
  have c: "\<not> same_domain ''notexample.com'' ''example.com''" by code_simp
  have d: "\<not> same_domain ''example.com'' ''notexample.com''" by code_simp
  from gen a b c d show ?thesis by blast
qed


subsection \<open>Brand impersonation\<close>

text \<open>
  Claim C9. The claim is that no impersonation issue is emitted when the space-stripped
  name of a collected brand is contained in the page host. On a page of host
  \<^verbatim>\<open>www.bankofamerica.com\<close> with one image whose alt text is
  \<^verbatim>\<open>Bank of America\<close>, the brand \<^verbatim>\<open>bank of america\<close> is collected and its
  space-stripped name \<^verbatim>\<open>bankofamerica\<close> is in the host, yet the code sets
  \<^verbatim>\<open>brandImpersonation\<close> and emits the issue: \<^verbatim>\<open>brand.replace(' ', '')\<close> removes
  the first space only and looks for \<^verbatim>\<open>bankof america\<close>.
\<close>

theorem bank_of_america_flagged:
  "analyzePageContent []
     [\<lparr>alt = ''Bank of America'', src = ''https://www.bankofamerica.com/logo.png''\<rparr>]
     ''www.bankofamerica.com'' =
   \<lparr>suspiciousText = False, brandImpersonation = True, poorSpellingGrammar = False,
    urgencyLanguage = False,
    content_issues = [''Potential impersonation of: bank of america'']\<rparr> \<and>
   replace ''bank of america'' CHR '' '' [] = ''bankof america'' \<and>
   str_includes ''www.bankofamerica.com'' ''bankofamerica''"
  by code_simp


subsection \<open>Aggregation and the base result's issue array\<close>

lemma push_Array:
  assumes "r < length h" and "h ! r = Array xs"
  shows "push h r x = Some (h[r := Array (xs @ [x])])"
  using assms by (simp add: push_def lookup_def)

lemma adjust_store_eq:
  assumes "ri < length h" and "h ! ri = Array xs"
  shows "adjust_store sc ri fam h =
           Some (fst (adjust \<lparr>score = sc, issues = xs, riskLevel = lvl\<rparr> fam),
                 h[ri := Array (snd (adjust \<lparr>score = sc, issues = xs, riskLevel = lvl\<rparr> fam))])"
proof (cases fam)
  case LookupFailed
  then show ?thesis using assms by (simp add: push_Array)
next
  case (Snapshot f)
  have same: "h[ri := Array xs] = h"
    using assms by (metis list_update_id)
  show ?thesis
    using assms Snapshot by (simp add: push_Array Let_def same)
qed


text \<open>
  Claim C7, as the code has it. Aggregation from a base analysis object leaves that
  object's fields, its score among them, and every other cell of the store unchanged,
  and returns a new object. The issue array of the base object is the exception: the
  familiarity issue, when one is emitted, is pushed onto it in place, so that it holds
  the issues of the aggregated result, with the earlier issues as a prefix. The new
  object's \<^verbatim>\<open>issues\<close> field refers to that same array.
\<close>

theorem aggregate_store_effect:
  assumes "base < length h" and "h ! base = Object sc ri lvl None"
    and "ri < length h" and "h ! ri = Array xs"
  shows "\<exists>h'. aggregateRisk_store base fam h = Some (length h, h') \<and>
           length h' = Suc (length h) \<and>
           h' ! base = h ! base \<and>
           (\<forall>r < length h. r \<noteq> ri \<longrightarrow> h' ! r = h ! r) \<and>
           h' ! ri = Array (issues (aggregateRisk \<lparr>score = sc, issues = xs, riskLevel = lvl\<rparr> fam)) \<and>
           prefix xs (issues (aggregateRisk \<lparr>score = sc, issues = xs, riskLevel = lvl\<rparr> fam)) \<and>
           h' ! length h =
             Object (score (aggregateRisk \<lparr>score = sc, issues = xs, riskLevel = lvl\<rparr> fam)) ri
               (riskLevel (aggregateRisk \<lparr>score = sc, issues = xs, riskLevel = lvl\<rparr> fam))
               (Some fam) \<and>
           issues_ref h' (length h) = issues_ref h' base \<and>
           read_analysis h' base =
             Some \<lparr>score = sc,
                   issues = issues (aggregateRisk \<lparr>score = sc, issues = xs, riskLevel = lvl\<rparr> fam),
                   riskLevel = lvl\<rparr>"
proof -
  let ?b = "\<lparr>score = sc, issues = xs, riskLevel = lvl\<rparr>"
  let ?agg = "aggregateRisk ?b fam"
  let ?h1 = "h[ri := Array (snd (adjust ?b fam))]"
  let ?obj = "Object (score ?agg) ri (riskLevel ?agg) (Some fam)"
  let ?h' = "?h1 @ [?obj]"
  have ne: "base \<noteq> ri" using assms(2,4) by auto
  have run: "aggregateRisk_store base fam h = Some (length h, ?h')"
    using assms(1,2) adjust_store_eq [OF assms(3,4), of sc fam lvl]
    by (simp add: aggregateRisk_store_def lookup_def alloc_def aggregateRisk_def Let_def)
  have len: "length ?h' = Suc (length h)" by simp
  have base: "?h' ! base = h ! base"
    using assms(1) ne by (simp add: nth_append)
  have others: "\<forall>r < length h. r \<noteq> ri \<longrightarrow> ?h' ! r = h ! r"
    by (simp add: nth_append)
  have arr: "?h' ! ri = Array (issues ?agg)"
    using assms(3) by (simp add: nth_append aggregateRisk_def Let_def)
  have pre: "prefix xs (issues ?agg)"
    by (cases fam) (simp_all add: aggregateRisk_def Let_def)
  have res: "?h' ! length h = ?obj"
    by (simp add: nth_append)
  have shared: "issues_ref ?h' (length h) = issues_ref ?h' base"
    using assms(1,2) ne by (simp add: issues_ref_def lookup_def nth_append)
  have rd: "read_analysis ?h' base = Some \<lparr>score = sc, issues = issues ?agg, riskLevel = lvl\<rparr>"
    using assms(1,2,3) ne by (simp add: read_analysis_def lookup_def nth_append aggregateRisk_def Let_def)
  from run len base others arr pre res shared rd show ?thesis
    by blast
qed


text \<open>The base analysis of a malformed URL, aggregated after a failed history lookup.\<close>

theorem aggregate_store_effect_witness:
  "(1::nat) < length [Array [''Malformed URL''], Object 20 0 SAFE None] \<and>
   [Array [''Malformed URL''], Object 20 0 SAFE None] ! 1 = Object 20 0 SAFE None \<and>
   [Array [''Malformed URL''], Object 20 0 SAFE None] ! 0 = Array [''Malformed URL''] \<and>
   (\<exists>h'. aggregateRisk_store 1 LookupFailed [Array [''Malformed URL''], Object 20 0 SAFE None] =
            Some (length [Array [''Malformed URL''], Object 20 0 SAFE None], h') \<and>
         h' ! 1 = [Array [''Malformed URL''], Object 20 0 SAFE None] ! 1 \<and>
         issues_ref h' (length [Array [''Malformed URL''], Object 20 0 SAFE None]) = issues_ref h' 1)"
proof -
  let ?H = "[Array [''Malformed URL''], Object 20 0 SAFE None]"
  have a: "1 < length ?H" by simp
  have b: "?H ! 1 = Object 20 0 SAFE None" by simp
  have c: "0 < length ?H" by simp
  have d: "?H ! 0 = Array [''Malformed URL'']" by simp
  from aggregate_store_effect [OF a b c d, of LookupFailed]
  have "\<exists>h'. aggregateRisk_store 1 LookupFailed ?H = Some (length ?H, h') \<and>
         h' ! 1 = ?H ! 1 \<and> issues_ref h' (length ?H) = issues_ref h' 1"
    by blast
  with a b d show ?thesis by blast
qed


text \<open>
  Claim C7 as stated fails: after the aggregation of the malformed-URL analysis with a
  first visit, the base result reads back with two issues instead of one, and the result
  object and the base object refer to the same issue array.
\<close>

theorem base_issues_mutated_counterexample:
  "analyzeUrl_store example_URL ''not a url'' [] =
     (1, [Array [''Malformed URL''], Object 20 0 SAFE None]) \<and>
   aggregateRisk_store 1 LookupFailed [Array [''Malformed URL''], Object 20 0 SAFE None] =
     Some (2, [Array [''Malformed URL'', ''First visit to this domain''],
               Object 20 0 SAFE None,
               Object 110 0 HIGH (Some LookupFailed)]) \<and>
   read_analysis [Array [''Malformed URL''], Object 20 0 SAFE None] 1 =
     Some \<lparr>score = 20, issues = [''Malformed URL''], riskLevel = SAFE\<rparr> \<and>
   read_analysis [Array [''Malformed URL'', ''First visit to this domain''],
                  Object 20 0 SAFE None,
                  Object 110 0 HIGH (Some LookupFailed)] 1 =
     Some \<lparr>score = 20, issues = [''Malformed URL'', ''First visit to this domain''],
           riskLevel = SAFE\<rparr> \<and>
   read_analysis [Array [''Malformed URL'', ''First visit to this domain''],
                  Object 20 0 SAFE None,
                  Object 110 0 HIGH (Some LookupFailed)] 1 \<noteq>
   read_analysis [Array [''Malformed URL''], Object 20 0 SAFE None] 1 \<and>
   issues_ref [Array [''Malformed URL'', ''First visit to this domain''],
               Object 20 0 SAFE None,
               Object 110 0 HIGH (Some LookupFailed)] 2 =
   issues_ref [Array [''Malformed URL'', ''First visit to this domain''],
               Object 20 0 SAFE None,
               Object 110 0 HIGH (Some LookupFailed)] 1"
  by code_simp

end
